theory Spec2Isabelle
  imports Complex_Main
begin

section \<open>Python primitives used by make\_timestamps\_srt.py\<close>

text \<open>
  Python strings are modelled as HOL strings, whose characters are the code points 0 to
  255. The character tests below are Python's Unicode tests on these code points.
  Python floats are modelled by rationals: the conversion of an integer to a float
  rounds and overflows as the language has it, while the arithmetic on floats is exact,
  so rounding errors of sums, products and quotients of IEEE doubles are not part of the
  model, and a decimal literal such as \<open>29.97\<close> stands for its decimal value.
\<close>

text \<open>
  \<open>c.isspace()\<close>, which is also the class \<open>\s\<close> of a regular expression: the
  whitespace of ASCII, the four separators \<open>0x1C\<close> to \<open>0x1F\<close>, next line
  (\<open>0x85\<close>) and the no-break space (\<open>0xA0\<close>).
\<close>

definition is_space :: "char \<Rightarrow> bool" where
  "is_space c = (c \<in> set [CHR 0x09, CHR 0x0A, CHR 0x0B, CHR 0x0C, CHR 0x0D,
                            CHR 0x1C, CHR 0x1D, CHR 0x1E, CHR 0x1F, CHR 0x20,
                            CHR 0x85, CHR 0xA0])"

text \<open>
  The decimal digits: the class \<open>\d\<close> of a regular expression and the digits that
  \<open>int\<close> accepts. Among the code points 0 to 255 these are \<open>0\<close> to \<open>9\<close> only.
\<close>

definition is_digit :: "char \<Rightarrow> bool" where
  "is_digit c = (c \<in> set ''0123456789'')"

definition digit_val :: "char \<Rightarrow> nat" where
  "digit_val c = (case map_of (zip ''0123456789'' [0, 1, 2, 3, 4, 5, 6, 7, 8, 9]) c of
                    None \<Rightarrow> 0 | Some d \<Rightarrow> d)"

text \<open>\<open>s.strip()\<close>\<close>

definition strip :: "string \<Rightarrow> string" where
  "strip s = rev (dropWhile is_space (rev (dropWhile is_space s)))"

text \<open>
  \<open>s.lower()\<close>: the upper-case letters among the code points 0 to 255 are \<open>A\<close> to
  \<open>Z\<close> and \<open>0xC0\<close> to \<open>0xDE\<close> without the multiplication sign \<open>0xD7\<close>; the
  lower-case letter of each is 32 code points further on.
\<close>

definition upper_letters :: string where
  "upper_letters =
        [CHR 0x41, CHR 0x42, CHR 0x43, CHR 0x44, CHR 0x45, CHR 0x46, CHR 0x47, CHR 0x48,
         CHR 0x49, CHR 0x4A, CHR 0x4B, CHR 0x4C, CHR 0x4D, CHR 0x4E, CHR 0x4F, CHR 0x50,
         CHR 0x51, CHR 0x52, CHR 0x53, CHR 0x54, CHR 0x55, CHR 0x56, CHR 0x57, CHR 0x58,
         CHR 0x59, CHR 0x5A, CHR 0xC0, CHR 0xC1, CHR 0xC2, CHR 0xC3, CHR 0xC4, CHR 0xC5,
         CHR 0xC6, CHR 0xC7, CHR 0xC8, CHR 0xC9, CHR 0xCA, CHR 0xCB, CHR 0xCC, CHR 0xCD,
         CHR 0xCE, CHR 0xCF, CHR 0xD0, CHR 0xD1, CHR 0xD2, CHR 0xD3, CHR 0xD4, CHR 0xD5,
         CHR 0xD6, CHR 0xD8, CHR 0xD9, CHR 0xDA, CHR 0xDB, CHR 0xDC, CHR 0xDD, CHR 0xDE]"

definition lower_letters :: string where
  "lower_letters =
        [CHR 0x61, CHR 0x62, CHR 0x63, CHR 0x64, CHR 0x65, CHR 0x66, CHR 0x67, CHR 0x68,
         CHR 0x69, CHR 0x6A, CHR 0x6B, CHR 0x6C, CHR 0x6D, CHR 0x6E, CHR 0x6F, CHR 0x70,
         CHR 0x71, CHR 0x72, CHR 0x73, CHR 0x74, CHR 0x75, CHR 0x76, CHR 0x77, CHR 0x78,
         CHR 0x79, CHR 0x7A, CHR 0xE0, CHR 0xE1, CHR 0xE2, CHR 0xE3, CHR 0xE4, CHR 0xE5,
         CHR 0xE6, CHR 0xE7, CHR 0xE8, CHR 0xE9, CHR 0xEA, CHR 0xEB, CHR 0xEC, CHR 0xED,
         CHR 0xEE, CHR 0xEF, CHR 0xF0, CHR 0xF1, CHR 0xF2, CHR 0xF3, CHR 0xF4, CHR 0xF5,
         CHR 0xF6, CHR 0xF8, CHR 0xF9, CHR 0xFA, CHR 0xFB, CHR 0xFC, CHR 0xFD, CHR 0xFE]"

definition lower_char :: "char \<Rightarrow> char" where
  "lower_char c =
     (case map_of (zip upper_letters lower_letters) c of None \<Rightarrow> c | Some d \<Rightarrow> d)"

definition lower :: "string \<Rightarrow> string" where
  "lower s = map lower_char s"

text \<open>\<open>s.startswith(p)\<close> and \<open>s.endswith(p)\<close>\<close>

definition startswith :: "string \<Rightarrow> string \<Rightarrow> bool" where
  "startswith s p = (take (length p) s = p)"

definition endswith :: "string \<Rightarrow> string \<Rightarrow> bool" where
  "endswith s p = (length p \<le> length s \<and> drop (length s - length p) s = p)"

text \<open>\<open>x or ""\<close> for an optional string \<open>x\<close>\<close>

definition or_empty :: "string option \<Rightarrow> string" where
  "or_empty x = (case x of None \<Rightarrow> [] | Some s \<Rightarrow> s)"

text \<open>
  \<open>int(s)\<close> for a string: surrounding whitespace is stripped, one sign is allowed, the
  digits may be grouped by single underscores, and there are at most 4300 digits (the
  default limit of the interpreter on the length of a decimal integer string).
  \<open>None\<close> is the \<open>ValueError\<close>. The whitespace that \<open>int\<close> strips is that of
  \<open>str.strip\<close> without the four separators \<open>0x1C\<close> to \<open>0x1F\<close>.
\<close>

definition is_int_space :: "char \<Rightarrow> bool" where
  "is_int_space c = (c \<in> set [CHR 0x09, CHR 0x0A, CHR 0x0B, CHR 0x0C, CHR 0x0D, CHR 0x20,
                                CHR 0x85, CHR 0xA0])"

fun valid_digits :: "string \<Rightarrow> bool" where
  "valid_digits [] = False"
| "valid_digits [c] = is_digit c"
| "valid_digits (c # d # cs) =
     (is_digit c \<and> (if d = CHR ''_'' then valid_digits cs else valid_digits (d # cs)))"

definition digits_value :: "string \<Rightarrow> int" where
  "digits_value s = foldl (\<lambda>a c. 10 * a + int (digit_val c)) 0 (filter is_digit s)"

definition int_of_digits :: "string \<Rightarrow> int option" where
  "int_of_digits ds =
     (if valid_digits ds \<and> int (length (filter is_digit ds)) \<le> 4300
      then Some (digits_value ds) else None)"

definition py_int :: "string \<Rightarrow> int option" where
  "py_int s =
     (case rev (dropWhile is_int_space (rev (dropWhile is_int_space s))) of
        [] \<Rightarrow> None
      | c # cs \<Rightarrow>
          if c = CHR ''-'' then map_option uminus (int_of_digits cs)
          else if c = CHR ''+'' then int_of_digits cs
          else int_of_digits (c # cs))"

text \<open>The exceptions that the program lets escape.\<close>

datatype py_error = ZeroDivisionError | OverflowError | OSError | ParseError

text \<open>\<open>n.bit_length()\<close> for \<open>n\<close> not negative\<close>

function bit_length :: "int \<Rightarrow> int" where
  "bit_length n = (if n \<le> 0 then 0 else 1 + bit_length (n div 2))"
  by auto

termination
  by (relation "measure nat") auto

declare bit_length.simps [simp del]

text \<open>
  \<open>float(n)\<close> for an integer \<open>n\<close>, which is also the conversion of an integer
  operand of a float operation: the magnitude is rounded to 53 significant bits, halves
  to the even neighbour, and \<open>OverflowError\<close> is raised when the rounded magnitude
  has more than 1024 bits.
\<close>

definition float_of_int :: "int \<Rightarrow> py_error + rat" where
  "float_of_int n =
     (let a = \<bar>n\<bar>;
          e = nat (bit_length a - 53);
          q = a div 2 ^ e;
          r = a mod 2 ^ e;
          m = (if 2 ^ e < 2 * r \<or> (2 * r = 2 ^ e \<and> odd q) then q + 1 else q);
          v = m * 2 ^ e
      in if 1024 < bit_length v then Inl OverflowError
         else Inr (of_int (if n < 0 then - v else v)))"

section \<open>The timeline document\<close>

text \<open>
  An \<open>xml.etree.ElementTree\<close> element: its tag, its text (\<open>None\<close> when the element
  has no text) and its children in document order. Attributes are never read by the
  program.
\<close>

datatype element = Element (tag: string) (etext: "string option") (children: "element list")

text \<open>\<open>e.findall("./t")\<close>, \<open>e.find("t")\<close> and \<open>e.findtext("t")\<close>\<close>

definition findall_child :: "string \<Rightarrow> element \<Rightarrow> element list" where
  "findall_child t e = filter (\<lambda>c. tag c = t) (children e)"

definition find_child :: "string \<Rightarrow> element \<Rightarrow> element option" where
  "find_child t e = (case findall_child t e of [] \<Rightarrow> None | c # _ \<Rightarrow> Some c)"

definition findtext :: "string \<Rightarrow> element \<Rightarrow> string option" where
  "findtext t e = map_option (\<lambda>c. or_empty (etext c)) (find_child t e)"

text \<open>The proper descendants of an element in document order (\<open>e.iter()\<close> without \<open>e\<close>).\<close>

fun iter_desc :: "element \<Rightarrow> element list" where
  "iter_desc (Element t x cs) = concat (map (\<lambda>c. c # iter_desc c) cs)"

definition findall_desc :: "string \<Rightarrow> element \<Rightarrow> element list" where
  "findall_desc t e = filter (\<lambda>c. tag c = t) (iter_desc e)"

text \<open>\<open>root.find(".//sequence/rate")\<close>\<close>

definition find_sequence_rate :: "element \<Rightarrow> element option" where
  "find_sequence_rate doc =
     (case concat (map (findall_child ''rate'') (findall_desc ''sequence'' doc)) of
        [] \<Rightarrow> None | r # _ \<Rightarrow> Some r)"

subsection \<open>get\_sequence\_rate\<close>

text \<open>The \<open>try: tb = int(tb) except: tb = 25\<close> of the source.\<close>

definition timebase_of :: "element \<Rightarrow> int" where
  "timebase_of rate =
     (case findtext ''timebase'' rate of
        None \<Rightarrow> 25
      | Some s \<Rightarrow> (case py_int s of None \<Rightarrow> 25 | Some n \<Rightarrow> n))"

definition get_sequence_rate :: "element \<Rightarrow> py_error + rat" where
  "get_sequence_rate doc =
     (case find_sequence_rate doc of
        None \<Rightarrow> Inr 25
      | Some rate \<Rightarrow>
          let tb = timebase_of rate;
              ntsc = findtext ''ntsc'' rate
          in if lower (or_empty ntsc) = ''true'' \<and> tb = 30 then Inr (2997 / 100)
             else if lower (or_empty ntsc) = ''true'' \<and> tb = 60 then Inr (5994 / 100)
             else if lower (or_empty ntsc) = ''true'' \<and> tb = 24 then Inr (23976 / 1000)
             else float_of_int tb)"

subsection \<open>gather\_v1\_clips\<close>

record clip =
  start_frames :: int
  end_frames :: int
  path :: string
  name :: string

text \<open>\<open>root.find(".//sequence/media/video")\<close> and \<open>e.find(".//t")\<close>\<close>

definition find_video :: "element \<Rightarrow> element option" where
  "find_video doc =
     (case concat (map (findall_child ''video'')
             (concat (map (findall_child ''media'') (findall_desc ''sequence'' doc)))) of
        [] \<Rightarrow> None | v # _ \<Rightarrow> Some v)"

definition find_desc :: "string \<Rightarrow> element \<Rightarrow> element option" where
  "find_desc t e = (case findall_desc t e of [] \<Rightarrow> None | c # _ \<Rightarrow> Some c)"

text \<open>
  \<open>url_to_path\<close>. The library call \<open>unquote(urlparse(url).path)\<close> is the parameter
  \<open>urlpath\<close>.
\<close>

definition url_to_path :: "(string \<Rightarrow> string) \<Rightarrow> string \<Rightarrow> string" where
  "url_to_path urlpath url = (if startswith url ''file://'' then urlpath url else url)"

text \<open>
  The part of the loop body after the \<open>enabled\<close> test: \<open>None\<close> is the
  \<open>continue\<close> taken when start, end or pathurl is missing or not an integer.
\<close>

definition placement :: "(string \<Rightarrow> string) \<Rightarrow> element \<Rightarrow> clip option" where
  "placement urlpath ci =
     (let start = findtext ''start'' ci;
          endt = findtext ''end'' ci;
          file_el = find_desc ''file'' ci;
          pathurl = (case file_el of None \<Rightarrow> None | Some f \<Rightarrow> findtext ''pathurl'' f);
          nm = (case file_el of None \<Rightarrow> findtext ''name'' ci | Some f \<Rightarrow> findtext ''name'' f)
      in case start of None \<Rightarrow> None | Some s \<Rightarrow>
        (case endt of None \<Rightarrow> None | Some e \<Rightarrow>
        (case pathurl of None \<Rightarrow> None | Some u \<Rightarrow>
        (case py_int s of None \<Rightarrow> None | Some si \<Rightarrow>
        (case py_int e of None \<Rightarrow> None | Some ei \<Rightarrow>
           Some \<lparr>start_frames = si, end_frames = ei,
                 path = url_to_path urlpath u, name = or_empty nm\<rparr>)))))"

text \<open>The loop body: \<open>if enabled and enabled.strip() == "FALSE": continue\<close> comes first.\<close>

definition clip_of_item :: "(string \<Rightarrow> string) \<Rightarrow> element \<Rightarrow> clip option" where
  "clip_of_item urlpath ci =
     (let enabled = findtext ''enabled'' ci
      in if (case enabled of None \<Rightarrow> False | Some e \<Rightarrow> e \<noteq> [] \<and> strip e = ''FALSE'')
         then None
         else placement urlpath ci)"

text \<open>The clip items of the first video track, in document order.\<close>

definition v1_clipitems :: "element \<Rightarrow> element list" where
  "v1_clipitems doc =
     (case find_video doc of
        None \<Rightarrow> []
      | Some video \<Rightarrow>
          (case findall_child ''track'' video of
             [] \<Rightarrow> []
           | v1 # _ \<Rightarrow> findall_child ''clipitem'' v1))"

definition gather_v1_clips :: "(string \<Rightarrow> string) \<Rightarrow> element \<Rightarrow> clip list" where
  "gather_v1_clips urlpath doc =
     sort_key start_frames (List.map_filter (clip_of_item urlpath) (v1_clipitems doc))"

section \<open>Timecodes\<close>

text \<open>\<open>int(x)\<close> truncates towards zero; \<open>round(x)\<close> rounds halves to the even integer.\<close>

definition py_trunc :: "rat \<Rightarrow> int" where
  "py_trunc x = (if 0 \<le> x then \<lfloor>x\<rfloor> else \<lceil>x\<rceil>)"

definition py_round :: "rat \<Rightarrow> int" where
  "py_round x =
     (let f = \<lfloor>x\<rfloor>; d = x - of_int f
      in if d < 1 / 2 then f
         else if 1 / 2 < d then f + 1
         else if even f then f else f + 1)"

text \<open>\<open>str(n)\<close> for a natural number, and the format specification \<open>0wd\<close>.\<close>

definition digit_char :: "nat \<Rightarrow> char" where
  "digit_char n = ''0123456789'' ! (n mod 10)"

fun digits_of :: "nat \<Rightarrow> string" where
  "digits_of n = (if n < 10 then [digit_char n] else digits_of (n div 10) @ [digit_char n])"

declare digits_of.simps [simp del]

definition zero_pad :: "nat \<Rightarrow> string \<Rightarrow> string" where
  "zero_pad w s = replicate (w - length s) (CHR ''0'') @ s"

definition format_d :: "nat \<Rightarrow> int \<Rightarrow> string" where
  "format_d w n =
     (if n < 0 then CHR ''-'' # zero_pad (w - 1) (digits_of (nat (- n)))
      else zero_pad w (digits_of (nat n)))"

text \<open>
  \<open>frames_to_tc_ms\<close>. The division \<open>frames / fps\<close> first converts the integer
  \<open>frames\<close> to a float and then raises \<open>ZeroDivisionError\<close> when \<open>fps\<close> is zero.
\<close>

definition frames_to_tc_ms :: "int \<Rightarrow> rat \<Rightarrow> py_error + string" where
  "frames_to_tc_ms frames fps =
     (case float_of_int frames of
        Inl e \<Rightarrow> Inl e
      | Inr fr \<Rightarrow>
          if fps = 0 then Inl ZeroDivisionError
          else
            let seconds = fr / fps;
                ms = py_round ((seconds - of_int (py_trunc seconds)) * 1000);
                s = py_trunc seconds;
                hh = s div 3600;
                mm = (s mod 3600) div 60;
                ss = s mod 60
            in Inr (format_d 2 hh @ '':'' @ format_d 2 mm @ '':'' @ format_d 2 ss @ '','' @
                    format_d 3 ms))"

section \<open>The timestamp resolver\<close>

text \<open>
  The metadata capability is a parameter: \<open>query t p\<close> is the decoded standard output of
  the exiftool call for tag \<open>t\<close> on file \<open>p\<close>, or \<open>None\<close> when the call ends in
  \<open>CalledProcessError\<close>. A capability that cannot be started, or whose output is not
  UTF-8, raises another exception, which the program does not catch; such a capability
  is not modelled.
\<close>

type_synonym exiftool = "string \<Rightarrow> string \<Rightarrow> string option"

definition tags :: "string list" where
  "tags = [''QuickTime:CreateDate'', ''QuickTime:MediaCreateDate'',
           ''QuickTime:TrackCreateDate'', ''QuickTime:ModifyDate'',
           ''Keys:CreationDate'', ''System:FileCreateDate'', ''System:FileModifyDate'']"

text \<open>The \<open>for t in tags\<close> loop; \<open>None\<close> is the loop running to its end.\<close>

fun scan_tags :: "exiftool \<Rightarrow> string \<Rightarrow> string list \<Rightarrow> string option" where
  "scan_tags query p [] = None"
| "scan_tags query p (t # ts) =
     (let out = (case query t p of None \<Rightarrow> [] | Some b \<Rightarrow> strip b)
      in if out \<noteq> [] \<and> \<not> endswith out '':''
         then (if startswith out ''0000'' \<or> out = ''0000:00:00 00:00:00''
                    \<or> out = ''0000-00-00 00:00:00''
               then scan_tags query p ts
               else Some out)
         else scan_tags query p ts)"

text \<open>
  Both filename patterns are sequences of single-character classes, so a match is a
  window of fixed length; \<open>re.search\<close> returns the leftmost one.
\<close>

type_synonym pattern = "(char \<Rightarrow> bool) list"

fun match_here :: "pattern \<Rightarrow> string \<Rightarrow> bool" where
  "match_here [] s = True"
| "match_here (c # cs) [] = False"
| "match_here (c # cs) (x # xs) = (c x \<and> match_here cs xs)"

fun re_search :: "pattern \<Rightarrow> string \<Rightarrow> string option" where
  "re_search pat [] = (if match_here pat [] then Some [] else None)"
| "re_search pat (x # xs) =
     (if match_here pat (x # xs) then Some (take (length pat) (x # xs))
      else re_search pat xs)"

definition one_of :: "string \<Rightarrow> char \<Rightarrow> bool" where
  "one_of cs c = (c \<in> set cs)"

text \<open>\<open>(20\d{2})[-_](\d{2})[-_](\d{2})[ _](\d{2})[:\.-](\d{2})[:\.-](\d{2})\<close>\<close>

definition pattern_a :: pattern where
  "pattern_a =
     [one_of ''2'', one_of ''0'', is_digit, is_digit, one_of ''-_'',
      is_digit, is_digit, one_of ''-_'', is_digit, is_digit, one_of '' _'',
      is_digit, is_digit, one_of '':.-'', is_digit, is_digit, one_of '':.-'',
      is_digit, is_digit]"

text \<open>\<open>(\d{2})-(\d{2})-(20\d{2})[ _](\d{2})[-](\d{2})[-](\d{2})\<close>\<close>

definition pattern_b :: pattern where
  "pattern_b =
     [is_digit, is_digit, one_of ''-'', is_digit, is_digit, one_of ''-'',
      one_of ''2'', one_of ''0'', is_digit, is_digit, one_of '' _'',
      is_digit, is_digit, one_of ''-'', is_digit, is_digit, one_of ''-'',
      is_digit, is_digit]"

text \<open>\<open>s[i:j]\<close> for \<open>0 \<le> i \<le> j\<close>\<close>

definition slice :: "nat \<Rightarrow> nat \<Rightarrow> string \<Rightarrow> string" where
  "slice i j s = take (j - i) (drop i s)"

text \<open>\<open>path.split("/")[-1]\<close>\<close>

definition last_component :: "string \<Rightarrow> string" where
  "last_component p = rev (takeWhile (\<lambda>c. c \<noteq> CHR ''/'') (rev p))"

text \<open>The filename fallback (the code after the loop).\<close>

definition filename_fallback :: "string \<Rightarrow> string option" where
  "filename_fallback fn =
     (case re_search pattern_a fn of
        Some m \<Rightarrow>
          Some (slice 0 4 m @ ''-'' @ slice 5 7 m @ ''-'' @ slice 8 10 m @ '' '' @
                slice 11 13 m @ '':'' @ slice 14 16 m @ '':00+0000'')
      | None \<Rightarrow>
          (case re_search pattern_b fn of
             Some m \<Rightarrow>
               Some (slice 6 10 m @ ''-'' @ slice 0 2 m @ ''-'' @ slice 3 5 m @ '' '' @
                     slice 11 13 m @ '':'' @ slice 14 16 m @ '':00+0000'')
           | None \<Rightarrow> None))"

definition run_exiftool :: "exiftool \<Rightarrow> string \<Rightarrow> string option" where
  "run_exiftool query p =
     (case scan_tags query p tags of
        Some out \<Rightarrow> Some out
      | None \<Rightarrow> filename_fallback (last_component p))"

section \<open>The timestamp normalizer\<close>

subsection \<open>Matching a format: datetime.strptime\<close>

text \<open>
  \<open>datetime.strptime\<close> turns the format into a regular expression, takes the first
  match the backtracking matcher finds at the start of the string, and fails when the
  match does not reach the end of the string. A matcher is modelled by the list of its
  matches in the order the backtracking matcher tries them: the matched text and the
  rest of the string.
\<close>

type_synonym matcher = "string \<Rightarrow> (string \<times> string) list"

definition re_one :: "(char \<Rightarrow> bool) \<Rightarrow> matcher" where
  "re_one P s = (case s of [] \<Rightarrow> [] | c # r \<Rightarrow> if P c then [([c], r)] else [])"

definition re_seq :: "matcher \<Rightarrow> matcher \<Rightarrow> matcher" where
  "re_seq p q s = concat (map (\<lambda>(a, r). map (\<lambda>(b, r'). (a @ b, r')) (q r)) (p s))"

definition re_alt :: "matcher \<Rightarrow> matcher \<Rightarrow> matcher" where
  "re_alt p q s = p s @ q s"

definition re_eps :: matcher where
  "re_eps s = [([], s)]"

text \<open>\<open>p?\<close> and \<open>p{0,n}\<close> are greedy: the longer match is tried first.\<close>

definition re_opt :: "matcher \<Rightarrow> matcher" where
  "re_opt p = re_alt p re_eps"

fun re_upto :: "nat \<Rightarrow> matcher \<Rightarrow> matcher" where
  "re_upto 0 p = re_eps"
| "re_upto (Suc n) p = re_alt (re_seq p (re_upto n p)) re_eps"

text \<open>\<open>\s+\<close>\<close>

fun re_many :: "(char \<Rightarrow> bool) \<Rightarrow> matcher" where
  "re_many P [] = [([], [])]"
| "re_many P (c # cs) =
     (if P c then map (\<lambda>(a, r). (c # a, r)) (re_many P cs) @ [([], c # cs)]
      else [([], c # cs)])"

definition re_many1 :: "(char \<Rightarrow> bool) \<Rightarrow> matcher" where
  "re_many1 P s = filter (\<lambda>(a, r). a \<noteq> []) (re_many P s)"

text \<open>
  The regular expressions of the directives, from \<open>_strptime.TimeRE\<close>:
  \<open>%Y\<close> is \<open>\d\d\d\d\<close>, \<open>%m\<close> is \<open>1[0-2]|0[1-9]|[1-9]\<close>,
  \<open>%d\<close> is \<open>3[0-1]|[1-2]\d|0[1-9]|[1-9]| [1-9]\<close>, \<open>%H\<close> is \<open>2[0-3]|[0-1]\d|\d\<close>,
  \<open>%M\<close> is \<open>[0-5]\d|\d\<close>, \<open>%S\<close> is \<open>6[0-1]|[0-5]\d|\d\<close> and \<open>%z\<close> is
  \<open>[+-]\d\d:?[0-5]\d(:?[0-5]\d(\.\d{1,6})?)?|Z\<close>.
\<close>

definition re_digit :: matcher where
  "re_digit = re_one is_digit"

definition re_in :: "string \<Rightarrow> matcher" where
  "re_in cs = re_one (one_of cs)"

definition re_z_fraction :: matcher where
  "re_z_fraction = re_seq (re_in ''.'') (re_seq re_digit (re_upto 5 re_digit))"

definition re_z_seconds :: matcher where
  "re_z_seconds =
     re_seq (re_opt (re_in '':''))
       (re_seq (re_in ''012345'') (re_seq re_digit (re_opt re_z_fraction)))"

definition re_z :: matcher where
  "re_z =
     re_alt
       (re_seq (re_in ''+-'')
          (re_seq re_digit
             (re_seq re_digit
                (re_seq (re_opt (re_in '':''))
                   (re_seq (re_in ''012345'') (re_seq re_digit (re_opt re_z_seconds)))))))
       (re_in ''Z'')"

definition directive :: "char \<Rightarrow> matcher" where
  "directive c =
     (if c = CHR ''Y'' then re_seq re_digit (re_seq re_digit (re_seq re_digit re_digit))
      else if c = CHR ''m'' then
        re_alt (re_seq (re_in ''1'') (re_in ''012''))
          (re_alt (re_seq (re_in ''0'') (re_in ''123456789'')) (re_in ''123456789''))
      else if c = CHR ''d'' then
        re_alt (re_seq (re_in ''3'') (re_in ''01''))
          (re_alt (re_seq (re_in ''12'') re_digit)
             (re_alt (re_seq (re_in ''0'') (re_in ''123456789''))
                (re_alt (re_in ''123456789'') (re_seq (re_in '' '') (re_in ''123456789'')))))
      else if c = CHR ''H'' then
        re_alt (re_seq (re_in ''2'') (re_in ''0123''))
          (re_alt (re_seq (re_in ''01'') re_digit) re_digit)
      else if c = CHR ''M'' then
        re_alt (re_seq (re_in ''012345'') re_digit) re_digit
      else if c = CHR ''S'' then
        re_alt (re_seq (re_in ''6'') (re_in ''01''))
          (re_alt (re_seq (re_in ''012345'') re_digit) re_digit)
      else if c = CHR ''z'' then re_z
      else (\<lambda>s. []))"

text \<open>
  A format string as a list of items. A whitespace character of the format stands for
  \<open>\s+\<close> (the formats used have no runs of whitespace); every other character, here
  only \<open>-\<close> and \<open>:\<close>, stands for itself.
\<close>

datatype fmt_item = Directive char | Literal char | Whitespace

fun compile_format :: "string \<Rightarrow> fmt_item list" where
  "compile_format [] = []"
| "compile_format [c] = (if is_space c then [Whitespace] else [Literal c])"
| "compile_format (c # d # cs) =
     (if c = CHR ''%'' then Directive d # compile_format cs
      else if is_space c then Whitespace # compile_format (d # cs)
      else Literal c # compile_format (d # cs))"

text \<open>The matches of a format: the named groups found and the rest of the string.\<close>

fun match_items :: "fmt_item list \<Rightarrow> string \<Rightarrow> ((char \<times> string) list \<times> string) list" where
  "match_items [] s = [([], s)]"
| "match_items (Literal c # its) s =
     (case s of [] \<Rightarrow> [] | x # xs \<Rightarrow> if x = c then match_items its xs else [])"
| "match_items (Whitespace # its) s =
     concat (map (\<lambda>(a, r). match_items its r) (re_many1 is_space s))"
| "match_items (Directive c # its) s =
     concat (map (\<lambda>(a, r). map (\<lambda>(groups, r'). ((c, a) # groups, r')) (match_items its r))
               (directive c s))"

subsection \<open>Dates\<close>

text \<open>
  A \<open>datetime\<close> with microsecond 0. \<open>tzinfo\<close> is the UTC offset in microseconds of a
  fixed-offset \<open>timezone\<close>, \<open>None\<close> for a naive value.
\<close>

record datetime =
  year :: nat
  month :: nat
  day :: nat
  hour :: nat
  minute :: nat
  second :: nat
  tzinfo :: "int option"

text \<open>The calendar arithmetic of the \<open>datetime\<close> module (proleptic Gregorian ordinals).\<close>

definition is_leap :: "nat \<Rightarrow> bool" where
  "is_leap y = (y mod 4 = 0 \<and> (y mod 100 \<noteq> 0 \<or> y mod 400 = 0))"

definition days_before_year :: "nat \<Rightarrow> nat" where
  "days_before_year y =
     (let z = y - 1 in z * 365 + z div 4 - z div 100 + z div 400)"

definition DAYS_IN_MONTH :: "nat list" where
  "DAYS_IN_MONTH = [0, 31, 28, 31, 30, 31, 30, 31, 31, 30, 31, 30, 31]"

definition DAYS_BEFORE_MONTH :: "nat list" where
  "DAYS_BEFORE_MONTH = [0, 0, 31, 59, 90, 120, 151, 181, 212, 243, 273, 304, 334]"

definition days_in_month :: "nat \<Rightarrow> nat \<Rightarrow> nat" where
  "days_in_month y m = (if m = 2 \<and> is_leap y then 29 else DAYS_IN_MONTH ! m)"

definition days_before_month :: "nat \<Rightarrow> nat \<Rightarrow> nat" where
  "days_before_month y m = DAYS_BEFORE_MONTH ! m + (if 2 < m \<and> is_leap y then 1 else 0)"

definition ymd2ord :: "nat \<Rightarrow> nat \<Rightarrow> nat \<Rightarrow> nat" where
  "ymd2ord y m d = days_before_year y + days_before_month y m + d"

definition ord2ymd :: "nat \<Rightarrow> nat \<times> nat \<times> nat" where
  "ord2ymd ordinal =
     (let n = ordinal - 1;
          n400 = n div 146097; n = n mod 146097;
          n100 = n div 36524; n = n mod 36524;
          n4 = n div 1461; n = n mod 1461;
          n1 = n div 365; n = n mod 365;
          y = n400 * 400 + 1 + n100 * 100 + n4 * 4 + n1
      in if n1 = 4 \<or> n100 = 4 then (y - 1, 12, 31)
         else
           let leapyear = (n1 = 3 \<and> (n4 \<noteq> 24 \<or> n100 = 3));
               m = (n + 50) div 32;
               preceding = DAYS_BEFORE_MONTH ! m + (if 2 < m \<and> leapyear then 1 else 0)
           in if n < preceding
              then (y, m - 1,
                    n - (preceding - (DAYS_IN_MONTH ! (m - 1)
                                      + (if m - 1 = 2 \<and> leapyear then 1 else 0))) + 1)
              else (y, m, n - preceding + 1))"

definition MAXORDINAL :: nat where
  "MAXORDINAL = 3652059"

text \<open>Microseconds since the start of ordinal day 0, ignoring the offset.\<close>

definition to_micros :: "datetime \<Rightarrow> int" where
  "to_micros dt =
     (int (ymd2ord (year dt) (month dt) (day dt)) * 86400
      + int (hour dt) * 3600 + int (minute dt) * 60 + int (second dt)) * 1000000"

text \<open>
  \<open>datetime + timedelta\<close>: the result must fall on an ordinal day from 1 to
  \<open>MAXORDINAL\<close> (years 1 to 9999), otherwise \<open>OverflowError\<close> is raised. The
  microsecond of the result is dropped: no caller reads it.
\<close>

definition of_micros :: "int \<Rightarrow> int option \<Rightarrow> py_error + datetime" where
  "of_micros us tz =
     (let days = us div 86400000000;
          secs = nat ((us mod 86400000000) div 1000000)
      in if 0 < days \<and> days \<le> int MAXORDINAL
         then (case ord2ymd (nat days) of
                 (y, m, d) \<Rightarrow>
                   Inr \<lparr>year = y, month = m, day = d, hour = secs div 3600,
                        minute = (secs mod 3600) div 60, second = secs mod 60, tzinfo = tz\<rparr>)
         else Inl OverflowError)"

text \<open>
  \<open>dt.astimezone(tz)\<close> for an aware \<open>dt\<close> and a fixed-offset \<open>tz\<close>: first
  \<open>dt - dt.utcoffset()\<close>, then \<open>tz.fromutc\<close>, which adds the offset of \<open>tz\<close>.
\<close>

definition astimezone :: "datetime \<Rightarrow> int \<Rightarrow> py_error + datetime" where
  "astimezone dt tz =
     (let utc = to_micros dt - (case tzinfo dt of None \<Rightarrow> 0 | Some off \<Rightarrow> off)
      in case of_micros utc (Some 0) of
           Inl e \<Rightarrow> Inl e
         | Inr _ \<Rightarrow> of_micros (utc + tz) (Some tz))"

text \<open>
  \<open>dt.strftime("%Y-%m-%d %H:%M")\<close>. The year is printed by the C library of the
  platform, which pads it with zeros to the width \<open>year_width\<close>: 4 on some platforms,
  and 1 on others, where years below 1000 come out with fewer than four digits.
\<close>

definition strftime :: "nat \<Rightarrow> datetime \<Rightarrow> string" where
  "strftime year_width dt =
     zero_pad year_width (digits_of (year dt)) @ ''-'' @ zero_pad 2 (digits_of (month dt)) @
     ''-'' @ zero_pad 2 (digits_of (day dt)) @ '' '' @ zero_pad 2 (digits_of (hour dt)) @
     '':'' @ zero_pad 2 (digits_of (minute dt))"

text \<open>
  The value of a \<open>%z\<close> group in microseconds, as \<open>_strptime\<close> computes it; \<open>None\<close> is
  its \<open>ValueError\<close> (colons used in one place and not the other).
\<close>

definition parse_z :: "string \<Rightarrow> int option" where
  "parse_z z =
     (if z = ''Z'' then Some 0
      else
        let z1 = (if z ! 3 = CHR '':''
                  then (let z' = take 3 z @ drop 4 z
                        in if 5 < length z'
                           then (if z' ! 5 \<noteq> CHR '':'' then None
                                 else Some (take 5 z' @ drop 6 z'))
                           else Some z')
                  else Some z)
        in case z1 of
             None \<Rightarrow> None
           | Some z \<Rightarrow>
               (case py_int (if slice 5 7 z = [] then ''0'' else slice 5 7 z) of
                  None \<Rightarrow> None
                | Some seconds \<Rightarrow>
                    let hours = digits_value (slice 1 3 z);
                        minutes = digits_value (slice 3 5 z);
                        gmtoff = hours * 60 * 60 + minutes * 60 + seconds;
                        remainder = drop 8 z;
                        fraction = digits_value
                                     (remainder @ replicate (6 - length remainder) (CHR ''0''));
                        total = gmtoff * 1000000 + fraction
                    in Some (if startswith z ''-'' then - total else total)))"

text \<open>
  The value of a group, with the default of \<open>_strptime\<close> when the format lacks it.
\<close>

definition group_value :: "(char \<times> string) list \<Rightarrow> char \<Rightarrow> nat \<Rightarrow> nat" where
  "group_value groups c dflt =
     (case map_of groups c of None \<Rightarrow> dflt | Some s \<Rightarrow> nat (digits_value s))"

text \<open>
  \<open>datetime.strptime(s, f)\<close>; \<open>None\<close> is the \<open>ValueError\<close>: no match, unconverted
  data, a date that does not exist (year 0, day beyond the month), a second of 60 or 61,
  or an offset of 24 hours or more.
\<close>

definition strptime :: "string \<Rightarrow> string \<Rightarrow> datetime option" where
  "strptime s f =
     (case match_items (compile_format f) s of
        [] \<Rightarrow> None
      | (groups, rest) # _ \<Rightarrow>
          if rest \<noteq> [] then None
          else
            let y = group_value groups (CHR ''Y'') 1900;
                m = group_value groups (CHR ''m'') 1;
                d = group_value groups (CHR ''d'') 1;
                tz = (case map_of groups (CHR ''z'') of
                        None \<Rightarrow> Some None
                      | Some z \<Rightarrow> (case parse_z z of None \<Rightarrow> None | Some off \<Rightarrow> Some (Some off)));
                dt = \<lparr>year = y, month = m, day = d,
                      hour = group_value groups (CHR ''H'') 0,
                      minute = group_value groups (CHR ''M'') 0,
                      second = group_value groups (CHR ''S'') 0,
                      tzinfo = (case tz of None \<Rightarrow> None | Some t \<Rightarrow> t)\<rparr>
            in if tz = None \<or> y < 1 \<or> days_in_month y m < d \<or> 59 < second dt
                  \<or> (case tzinfo dt of None \<Rightarrow> False | Some off \<Rightarrow> 86400000000 \<le> \<bar>off\<bar>)
               then None
               else Some dt)"

subsection \<open>to\_local\_no\_seconds\<close>

definition fmts :: "string list" where
  "fmts = [''%Y-%m-%d %H:%M:%S%z'', ''%Y-%m-%d %H:%M%z'',
           ''%Y-%m-%d %H:%M:%S'', ''%Y-%m-%d %H:%M'']"

text \<open>The \<open>for f in fmts\<close> loop with its \<open>try\<close>: the first format that parses wins.\<close>

fun first_parse :: "string list \<Rightarrow> string \<Rightarrow> datetime option" where
  "first_parse [] s = None"
| "first_parse (f # fs) s =
     (case strptime s f of Some dt \<Rightarrow> Some dt | None \<Rightarrow> first_parse fs s)"

text \<open>
  The local time zone \<open>datetime.now().astimezone().tzinfo\<close> is a fixed offset; it is the
  parameter \<open>local_offset\<close>, in seconds.
\<close>

definition to_local_no_seconds ::
  "nat \<Rightarrow> int \<Rightarrow> string \<Rightarrow> py_error + string option" where
  "to_local_no_seconds year_width local_offset dt_str =
     (if dt_str = [] then Inr None
      else
        case first_parse fmts dt_str of
          None \<Rightarrow> Inr None
        | Some dt \<Rightarrow>
            let dt = (case tzinfo dt of None \<Rightarrow> dt\<lparr>tzinfo := Some 0\<rparr> | Some _ \<Rightarrow> dt)
            in (case astimezone dt (local_offset * 1000000) of
                  Inl e \<Rightarrow> Inl e
                | Inr local_dt \<Rightarrow> Inr (Some (strftime year_width local_dt))))"

section \<open>The caption assembler\<close>

subsection \<open>The output path\<close>

text \<open>
  \<open>os.path.basename\<close>, \<open>os.path.dirname\<close>, \<open>os.path.splitext(p)[0]\<close> and
  \<open>os.path.join\<close> of two components, as \<open>posixpath\<close> defines them: the platform
  is a POSIX one, where a text file is written without translation of its newlines.
\<close>

definition basename :: "string \<Rightarrow> string" where
  "basename p = last_component p"

definition rstrip_sep :: "string \<Rightarrow> string" where
  "rstrip_sep s = rev (dropWhile (\<lambda>c. c = CHR ''/'') (rev s))"

definition dirname :: "string \<Rightarrow> string" where
  "dirname p =
     (let head = take (length p - length (basename p)) p
      in if head \<noteq> [] \<and> head \<noteq> replicate (length head) (CHR ''/'')
         then rstrip_sep head else head)"

definition splitext_root :: "string \<Rightarrow> string" where
  "splitext_root p =
     (let ext = rev (takeWhile (\<lambda>c. c \<noteq> CHR ''.'') (rev p))
      in if length ext = length p \<or> CHR ''/'' \<in> set ext then p
         else
           let stem = take (length p - length ext - 1) p
           in if filter (\<lambda>c. c \<noteq> CHR ''.'') (last_component stem) \<noteq> [] then stem else p)"

definition join :: "string \<Rightarrow> string \<Rightarrow> string" where
  "join a b =
     (if startswith b ''/'' then b
      else if a = [] \<or> endswith a ''/'' then a @ b
      else a @ ''/'' @ b)"

definition out_path :: "string \<Rightarrow> string" where
  "out_path xml_path =
     join (dirname xml_path) (''timestamps_'' @ splitext_root (basename xml_path) @ ''.srt'')"

subsection \<open>The world of a run\<close>

text \<open>
  What a run takes from outside: the metadata capability, the width to which the
  platform pads a year, the UTC offset of the local time zone in seconds, the library's
  decoding of a \<open>file://\<close> URL, and the XML parser (\<open>None\<close> is its \<open>ParseError\<close>).
\<close>

record env =
  env_query :: exiftool
  env_year_width :: nat
  env_local_offset :: int
  env_urlpath :: "string \<Rightarrow> string"
  env_parse :: "string \<Rightarrow> element option"

text \<open>
  The files, by path (\<open>None\<close> for a path that cannot be read), the paths that can be
  opened for writing, and the paths opened for writing so far, in order. Messages on the
  diagnostic stream are not modelled.
\<close>

record fs_state =
  files :: "string \<Rightarrow> string option"
  writable :: "string \<Rightarrow> bool"
  written :: "string list"

datatype outcome = Exit nat | Raised py_error | Finished

subsection \<open>main\<close>

definition nl :: string where
  "nl = [CHR 0x0A]"

text \<open>\<open>sep.join(lines)\<close>\<close>

fun join_lines :: "string \<Rightarrow> string list \<Rightarrow> string" where
  "join_lines sep [] = []"
| "join_lines sep [l] = l"
| "join_lines sep (l # m # ls) = l @ sep @ join_lines sep (m # ls)"

text \<open>
  The caption of a clip: the \<open>[NO-DATE]\<close> marker when the resolver has nothing, else
  the normalized timestamp, else the raw one. An exception raised by the normalizer
  propagates.
\<close>

definition caption_of :: "env \<Rightarrow> clip \<Rightarrow> py_error + string" where
  "caption_of env c =
     (case run_exiftool (env_query env) (path c) of
        None \<Rightarrow> Inr (''[NO-DATE] '' @ name c)
      | Some dt \<Rightarrow>
          if dt = [] then Inr (''[NO-DATE] '' @ name c)
          else
            (case to_local_no_seconds (env_year_width env) (env_local_offset env) dt of
               Inl e \<Rightarrow> Inl e
             | Inr local_fmt \<Rightarrow>
                 Inr (case local_fmt of
                        None \<Rightarrow> dt
                      | Some l \<Rightarrow> if l = [] then dt else l)))"

text \<open>The start timecode, end timecode and caption computed by one turn of the loop.\<close>

definition cue_of :: "env \<Rightarrow> rat \<Rightarrow> clip \<Rightarrow> py_error + (string \<times> string \<times> string)" where
  "cue_of env fps c =
     (case frames_to_tc_ms (start_frames c) fps of
        Inl e \<Rightarrow> Inl e
      | Inr start_tc \<Rightarrow>
          (case frames_to_tc_ms (end_frames c) fps of
             Inl e \<Rightarrow> Inl e
           | Inr end_tc \<Rightarrow>
               (case caption_of env c of
                  Inl e \<Rightarrow> Inl e
                | Inr caption \<Rightarrow> Inr (start_tc, end_tc, caption))))"

text \<open>The loop over the clips, with the running index and the lines appended so far.\<close>

fun build_lines :: "env \<Rightarrow> rat \<Rightarrow> clip list \<Rightarrow> nat \<Rightarrow> string list \<Rightarrow> py_error + string list" where
  "build_lines env fps [] idx lines = Inr lines"
| "build_lines env fps (c # cs) idx lines =
     (case cue_of env fps c of
        Inl e \<Rightarrow> Inl e
      | Inr (start_tc, end_tc, caption) \<Rightarrow>
          build_lines env fps cs (idx + 1)
            (lines @ [digits_of idx, start_tc @ '' --> '' @ end_tc, caption, []]))"

text \<open>
  \<open>main\<close>, with \<open>argv\<close> for \<open>sys.argv\<close>. The document is read and parsed, the rate
  is computed before the clips are gathered, the lines of all clips are built, and only
  then is the output path opened for writing and the joined lines written.
\<close>

definition main :: "env \<Rightarrow> string list \<Rightarrow> fs_state \<Rightarrow> outcome \<times> fs_state" where
  "main env argv st =
     (if length argv < 2 then (Exit 1, st)
      else
        let xml_path = argv ! 1;
            out = out_path xml_path
        in case files st xml_path of
             None \<Rightarrow> (Raised OSError, st)
           | Some txt \<Rightarrow>
               (case env_parse env txt of
                  None \<Rightarrow> (Raised ParseError, st)
                | Some doc \<Rightarrow>
                    (case get_sequence_rate doc of
                       Inl e \<Rightarrow> (Raised e, st)
                     | Inr fps \<Rightarrow>
                         let clips = gather_v1_clips (env_urlpath env) doc
                         in if clips = [] then (Exit 2, st)
                            else
                              (case build_lines env fps clips 1 [] of
                                 Inl e \<Rightarrow> (Raised e, st)
                               | Inr lines \<Rightarrow>
                                   if \<not> writable st out then (Raised OSError, st)
                                   else
                                     (Finished,
                                      st\<lparr>files := (files st)(out \<mapsto> join_lines nl lines),
                                         written := written st @ [out]\<rparr>)))))"

section \<open>Example inputs\<close>

text \<open>
  A timeline with one sequence at timebase 30 with the NTSC flag set, whose first video
  track holds the given clip items.
\<close>

definition rate_30_ntsc :: element where
  "rate_30_ntsc =
     Element ''rate'' None
       [Element ''timebase'' (Some ''30'') [], Element ''ntsc'' (Some ''TRUE'') []]"

definition track_doc :: "element list \<Rightarrow> element" where
  "track_doc items =
     Element ''xmeml'' None
       [Element ''sequence'' None
          [rate_30_ntsc,
           Element ''media'' None
             [Element ''video'' None [Element ''track'' None items]]]]"


text \<open>A clip item with a name of its own whose file reference has a path but no name.\<close>

definition unnamed_file_item :: element where
  "unnamed_file_item =
     Element ''clipitem'' None
       [Element ''name'' (Some ''Clip A'') [],
        Element ''start'' (Some ''0'') [],
        Element ''end'' (Some ''100'') [],
        Element ''file'' None [Element ''pathurl'' (Some ''/clips/a.mov'') []]]"

text \<open>
  A metadata capability whose first tag returns a date in year zero, whose fourth tag
  returns a usable date and whose other tags return nothing; and one whose every call
  fails.
\<close>

definition year_zero_query :: exiftool where
  "year_zero_query t p =
     (if t = ''QuickTime:CreateDate'' then Some ''0000-01-01 00:00:00+0000''
      else if t = ''QuickTime:ModifyDate'' then Some ''2024-05-01 08:00:00+0000''
      else Some [])"

definition no_metadata :: exiftool where
  "no_metadata t p = None"

text \<open>
  A run on \<open>/proj/seq.xml\<close>: the parser yields the example timeline with the two given
  clip items, the local time zone is UTC, the metadata capability knows a creation date
  for \<open>/clips/a.mov\<close> only, and every path can be opened for writing.
\<close>

definition clip_item :: "string \<Rightarrow> string \<Rightarrow> string \<Rightarrow> string \<Rightarrow> element" where
  "clip_item nm s e url =
     Element ''clipitem'' None
       [Element ''start'' (Some s) [],
        Element ''end'' (Some e) [],
        Element ''file'' None
          [Element ''name'' (Some nm) [], Element ''pathurl'' (Some url) []]]"

definition two_clips :: element where
  "two_clips =
     track_doc [clip_item ''a.mov'' ''0'' ''100'' ''/clips/a.mov'',
                clip_item ''b.mov'' ''100'' ''250'' ''/clips/b.mov'']"

definition one_date :: exiftool where
  "one_date t p =
     (if t = ''QuickTime:CreateDate'' \<and> p = ''/clips/a.mov''
      then Some ''2025-06-01 12:00:00+0000'' else Some [])"

definition example_env :: "element \<Rightarrow> env" where
  "example_env doc =
     \<lparr>env_query = one_date, env_year_width = 4, env_local_offset = 0, env_urlpath = id,
      env_parse = (\<lambda>txt. if txt = ''<xmeml/>'' then Some doc else None)\<rparr>"

definition example_fs :: fs_state where
  "example_fs =
     \<lparr>files = [''/proj/seq.xml'' \<mapsto> ''<xmeml/>'', ''/proj/bad.xml'' \<mapsto> ''<xmeml'',
               ''/proj/timestamps_seq.srt'' \<mapsto> ''old''],
      writable = (\<lambda>p. True),
      written = []\<rparr>"

text \<open>The two clips of that timeline, and the document the run writes.\<close>

definition clip_a :: clip where
  "clip_a = \<lparr>start_frames = 0, end_frames = 100, path = ''/clips/a.mov'', name = ''a.mov''\<rparr>"

definition clip_b :: clip where
  "clip_b = \<lparr>start_frames = 100, end_frames = 250, path = ''/clips/b.mov'', name = ''b.mov''\<rparr>"



text \<open>
  A metadata capability that answers every tag with the first second of year 1 in a zone
  one hour east of Greenwich: an instant in the last hour of the year before.
\<close>

definition early_date :: exiftool where
  "early_date t p = Some ''0001-01-01 00:00:00+0100''"

text \<open>
  A timeline whose timebase is a one followed by 309 zeros, with the NTSC flag not set.
\<close>

definition huge_timebase :: string where
  "huge_timebase = CHR ''1'' # replicate 309 (CHR ''0'')"

definition rate_huge :: element where
  "rate_huge =
     Element ''rate'' None
       [Element ''timebase'' (Some huge_timebase) [], Element ''ntsc'' (Some ''FALSE'') []]"

definition huge_doc :: element where
  "huge_doc = Element ''xmeml'' None [Element ''sequence'' None [rate_huge]]"

text \<open>A timeline whose timebase is \<open>2 ^ 53 + 1\<close>, with no NTSC flag.\<close>

definition rate_odd :: element where
  "rate_odd = Element ''rate'' None [Element ''timebase'' (Some ''9007199254740993'') []]"

definition odd_doc :: element where
  "odd_doc = Element ''xmeml'' None [Element ''sequence'' None [rate_odd]]"

section \<open>Properties\<close>

subsection \<open>Helper facts\<close>



subsection \<open>The conversion of an integer to a float\<close>

lemma bit_length_nonneg: "0 \<le> bit_length n"
  by (induction n rule: bit_length.induct) (subst bit_length.simps, simp)

lemma bit_length_le: "a < 2 ^ k \<Longrightarrow> bit_length a \<le> int k"
proof (induction k arbitrary: a)
  case 0
  then show ?case by (subst bit_length.simps) simp
next
  case (Suc k)
  show ?case
  proof (cases "a \<le> 0")
    case True
    then show ?thesis by (subst bit_length.simps) simp
  next
    case False
    from Suc.prems have "a div 2 < 2 ^ k" by simp
    then have "bit_length (a div 2) \<le> int k" by (rule Suc.IH)
    with False show ?thesis by (subst bit_length.simps) simp
  qed
qed

lemma bit_length_gt: "2 ^ k \<le> a \<Longrightarrow> int k < bit_length a"
proof (induction k arbitrary: a)
  case 0
  then show ?case
    using bit_length_nonneg [of "a div 2"] by (subst bit_length.simps) simp
next
  case (Suc k)
  then have "2 ^ k \<le> a div 2" by simp
  then have "int k < bit_length (a div 2)" by (rule Suc.IH)
  moreover from Suc.prems have "0 < a"
    by (smt (verit) zero_less_power)
  ultimately show ?case by (subst bit_length.simps) simp
qed

lemma bit_length_lower: "0 < a \<Longrightarrow> 2 ^ nat (bit_length a - 1) \<le> a"
proof (induction a rule: bit_length.induct)
  case (1 n)
  show ?case
  proof (cases "n div 2 \<le> 0")
    case True
    with 1 have "n = 1" by linarith
    then show ?thesis by (simp add: bit_length.simps)
  next
    case False
    with 1 have IH: "2 ^ nat (bit_length (n div 2) - 1) \<le> n div 2" by simp
    from False have pos: "1 \<le> bit_length (n div 2)"
      using bit_length_nonneg [of "n div 2 div 2"] by (subst bit_length.simps) simp
    from 1 have "bit_length n = 1 + bit_length (n div 2)"
      by (subst bit_length.simps) simp
    then have "nat (bit_length n - 1) = Suc (nat (bit_length (n div 2) - 1))"
      using pos by simp
    then have "(2 :: int) ^ nat (bit_length n - 1) = 2 * 2 ^ nat (bit_length (n div 2) - 1)"
      by simp
    also have "\<dots> \<le> 2 * (n div 2)" using IH by simp
    also have "\<dots> \<le> n" by simp
    finally show ?thesis .
  qed
qed

text \<open>An integer of magnitude below \<open>2 ^ 53\<close> is its own float.\<close>

lemma float_of_int_exact:
  assumes "\<bar>n\<bar> < 2 ^ 53"
  shows "float_of_int n = Inr (of_int n)"
proof -
  from assms have "bit_length \<bar>n\<bar> \<le> 53"
    using bit_length_le [of "\<bar>n\<bar>" 53] by simp
  then have "nat (bit_length \<bar>n\<bar> - 53) = 0" "\<not> 1024 < bit_length \<bar>n\<bar>" by simp_all
  then show ?thesis by (auto simp: float_of_int_def Let_def)
qed

text \<open>An integer of magnitude \<open>2 ^ 1024\<close> or more has no float.\<close>

lemma float_of_int_overflow:
  assumes "2 ^ 1024 \<le> \<bar>n\<bar>"
  shows "float_of_int n = Inl OverflowError"
proof -
  define a where "a = \<bar>n\<bar>"
  define e where "e = nat (bit_length a - 53)"
  define q where "q = a div 2 ^ e"
  define m where "m = (if 2 ^ e < 2 * (a mod 2 ^ e) \<or> (2 * (a mod 2 ^ e) = 2 ^ e \<and> odd q)
                       then q + 1 else q)"
  from assms have big: "1024 < bit_length a"
    unfolding a_def using bit_length_gt [of 1024 "\<bar>n\<bar>"] by simp
  then have e: "nat (bit_length a - 1) = e + 52" and e_ge: "1024 \<le> e + 52"
    by (simp_all add: e_def)
  from assms have "0 < a" unfolding a_def by (smt (verit) zero_less_power)
  then have "2 ^ (e + 52) \<le> a"
    using bit_length_lower [of a] by (simp add: e)
  then have "(2 ^ 52 * 2 ^ e) div 2 ^ e \<le> a div 2 ^ e"
    by (intro zdiv_mono1) (simp_all add: power_add mult.commute)
  then have "2 ^ 52 \<le> q" by (simp add: q_def)
  moreover have "q \<le> m" by (simp add: m_def)
  ultimately have "2 ^ 52 * 2 ^ e \<le> m * (2 ^ e :: int)"
    by (intro mult_right_mono) simp_all
  then have "2 ^ (e + 52) \<le> m * (2 ^ e :: int)"
    by (simp only: power_add mult.commute)
  moreover have "(2 :: int) ^ 1024 \<le> 2 ^ (e + 52)"
    using e_ge by (intro power_increasing) simp_all
  ultimately have "2 ^ 1024 \<le> m * (2 ^ e :: int)"
    by (rule order_trans [rotated])
  then have "int 1024 < bit_length (m * 2 ^ e)"
    by (rule bit_length_gt)
  then have "1024 < bit_length (m * 2 ^ e)" by simp
  then show ?thesis
    unfolding m_def q_def e_def a_def
    by (auto simp: float_of_int_def Let_def split: if_splits)
qed

subsection \<open>The sequence rate\<close>

text \<open>
  Claim C6, as the code has it. With no rate descriptor the rate is 25. With a rate
  descriptor whose timebase is missing or is not an integer the rate is 25. With
  timebase \<open>tb\<close>: when the NTSC text lower-cased is \<open>true\<close>, timebases 30, 60 and 24
  give 29.97, 59.94 and 23.976; any other timebase, and every timebase when the flag is
  not true, is converted to a float. The conversion gives \<open>tb\<close> itself when the
  magnitude of \<open>tb\<close> is below \<open>2 ^ 53\<close>, and raises \<open>OverflowError\<close>, so that there is
  no rate, when it is \<open>2 ^ 1024\<close> or more.
\<close>

theorem sequence_rate_cases:
  "(find_sequence_rate doc = None \<longrightarrow> get_sequence_rate doc = Inr 25) \<and>
   (\<forall>rate. find_sequence_rate doc = Some rate \<longrightarrow>
      ((findtext ''timebase'' rate = None \<or>
        (\<exists>s. findtext ''timebase'' rate = Some s \<and> py_int s = None)) \<longrightarrow>
         get_sequence_rate doc = Inr 25) \<and>
      (\<forall>s tb. findtext ''timebase'' rate = Some s \<and> py_int s = Some tb \<longrightarrow>
         (lower (or_empty (findtext ''ntsc'' rate)) = ''true'' \<and> tb = 30 \<longrightarrow>
            get_sequence_rate doc = Inr (2997 / 100)) \<and>
         (lower (or_empty (findtext ''ntsc'' rate)) = ''true'' \<and> tb = 60 \<longrightarrow>
            get_sequence_rate doc = Inr (5994 / 100)) \<and>
         (lower (or_empty (findtext ''ntsc'' rate)) = ''true'' \<and> tb = 24 \<longrightarrow>
            get_sequence_rate doc = Inr (23976 / 1000)) \<and>
         ((tb \<noteq> 30 \<and> tb \<noteq> 60 \<and> tb \<noteq> 24) \<or>
          lower (or_empty (findtext ''ntsc'' rate)) \<noteq> ''true'' \<longrightarrow>
            get_sequence_rate doc = float_of_int tb \<and>
            (\<bar>tb\<bar> < 2 ^ 53 \<longrightarrow> get_sequence_rate doc = Inr (of_int tb)) \<and>
            (2 ^ 1024 \<le> \<bar>tb\<bar> \<longrightarrow> get_sequence_rate doc = Inl OverflowError))))"
proof -
  have f25: "float_of_int 25 = Inr 25"
    using float_of_int_exact [of 25] by simp
  have unparsed: "get_sequence_rate doc = Inr 25"
    if "find_sequence_rate doc = Some rate" "timebase_of rate = 25" for rate
    using that by (simp add: get_sequence_rate_def f25)
  have parsed: "timebase_of rate = tb"
    if "findtext ''timebase'' rate = Some s" "py_int s = Some tb" for rate s tb
    using that by (simp add: timebase_of_def)
  have other: "get_sequence_rate doc = float_of_int (timebase_of rate)"
    if "find_sequence_rate doc = Some rate"
      "(timebase_of rate \<noteq> 30 \<and> timebase_of rate \<noteq> 60 \<and> timebase_of rate \<noteq> 24) \<or>
       lower (or_empty (findtext ''ntsc'' rate)) \<noteq> ''true''" for rate
    using that by (auto simp: get_sequence_rate_def)
  show ?thesis
  proof (intro conjI allI impI)
    show "get_sequence_rate doc = Inr 25" if "find_sequence_rate doc = None"
      using that by (simp add: get_sequence_rate_def)
  next
    fix rate
    assume r: "find_sequence_rate doc = Some rate"
    show "get_sequence_rate doc = Inr 25"
      if "findtext ''timebase'' rate = None \<or>
          (\<exists>s. findtext ''timebase'' rate = Some s \<and> py_int s = None)"
    proof -
      from that have "timebase_of rate = 25"
        by (auto simp: timebase_of_def)
      with r show ?thesis by (rule unparsed)
    qed
  next
    fix rate s tb
    assume r: "find_sequence_rate doc = Some rate"
      and t: "findtext ''timebase'' rate = Some s \<and> py_int s = Some tb"
    then have tb: "timebase_of rate = tb" using parsed by blast
    show "get_sequence_rate doc = Inr (2997 / 100)"
      if "lower (or_empty (findtext ''ntsc'' rate)) = ''true'' \<and> tb = 30"
      using that r tb by (simp add: get_sequence_rate_def)
    show "get_sequence_rate doc = Inr (5994 / 100)"
      if "lower (or_empty (findtext ''ntsc'' rate)) = ''true'' \<and> tb = 60"
      using that r tb by (simp add: get_sequence_rate_def)
    show "get_sequence_rate doc = Inr (23976 / 1000)"
      if "lower (or_empty (findtext ''ntsc'' rate)) = ''true'' \<and> tb = 24"
      using that r tb by (simp add: get_sequence_rate_def)
    assume o: "(tb \<noteq> 30 \<and> tb \<noteq> 60 \<and> tb \<noteq> 24) \<or>
               lower (or_empty (findtext ''ntsc'' rate)) \<noteq> ''true''"
    with r tb show g: "get_sequence_rate doc = float_of_int tb"
      using other [of rate] by simp
    show "get_sequence_rate doc = Inr (of_int tb)" if "\<bar>tb\<bar> < 2 ^ 53"
      using g float_of_int_exact [OF that] by simp
    show "get_sequence_rate doc = Inl OverflowError" if "2 ^ 1024 \<le> \<bar>tb\<bar>"
      using g float_of_int_overflow [OF that] by simp
  qed
qed

text \<open>
  The amended C6 on the example timeline, timebase 30 with flag \<open>TRUE\<close>, and on a rate
  descriptor with timebase 25 and no flag.
\<close>

theorem sequence_rate_cases_witness:
  "find_sequence_rate (track_doc []) = Some rate_30_ntsc \<and>
   findtext ''timebase'' rate_30_ntsc = Some ''30'' \<and> py_int ''30'' = Some 30 \<and>
   lower (or_empty (findtext ''ntsc'' rate_30_ntsc)) = ''true'' \<and>
   get_sequence_rate (track_doc []) = Inr (2997 / 100) \<and>
   get_sequence_rate
     (Element ''xmeml'' None
        [Element ''sequence'' None
           [Element ''rate'' None [Element ''timebase'' (Some ''25'') []]]]) = Inr 25"
proof -
  let ?plain = "Element ''rate'' None [Element ''timebase'' (Some ''25'') []]"
  let ?doc = "Element ''xmeml'' None [Element ''sequence'' None [?plain]]"
  have a: "find_sequence_rate (track_doc []) = Some rate_30_ntsc" by code_simp
  have b: "findtext ''timebase'' rate_30_ntsc = Some ''30''" by code_simp
  have c: "py_int ''30'' = Some 30" by code_simp
  have d: "lower (or_empty (findtext ''ntsc'' rate_30_ntsc)) = ''true''" by code_simp
  have a': "find_sequence_rate ?doc = Some ?plain" by code_simp
  have b': "findtext ''timebase'' ?plain = Some ''25''" by code_simp
  have c': "py_int ''25'' = Some 25" by code_simp
  have d': "lower (or_empty (findtext ''ntsc'' ?plain)) \<noteq> ''true''" by code_simp
  from sequence_rate_cases [of "track_doc []"] a b c d
  have "get_sequence_rate (track_doc []) = Inr (2997 / 100)" by blast
  moreover from sequence_rate_cases [of ?doc] a' b' c' d'
  have "\<bar>25 :: int\<bar> < 2 ^ 53 \<longrightarrow> get_sequence_rate ?doc = Inr (of_int 25)" by blast
  then have "get_sequence_rate ?doc = Inr 25" by simp
  ultimately show ?thesis using a b c d by blast
qed

text \<open>
  C6 as stated fails. The timebase \<open>2 ^ 53 + 1\<close> is an integer other than 30, 60 and
  24, yet the rate is \<open>2 ^ 53\<close>, not the timebase: no float has the value of the
  timebase. And the timebase of the second timeline is an integer, a one followed by 309
  zeros, with the flag not true, yet that timeline has no rate, because the conversion
  of the timebase to a float raises \<open>OverflowError\<close>.
\<close>

theorem timebase_overflow_counterexample:
  "find_sequence_rate odd_doc = Some rate_odd \<and>
   py_int ''9007199254740993'' = Some 9007199254740993 \<and>
   get_sequence_rate odd_doc = Inr 9007199254740992 \<and>
   find_sequence_rate huge_doc = Some rate_huge \<and>
   findtext ''timebase'' rate_huge = Some huge_timebase \<and>
   py_int huge_timebase = Some (10 ^ 309) \<and>
   lower (or_empty (findtext ''ntsc'' rate_huge)) = ''false'' \<and>
   get_sequence_rate huge_doc = Inl OverflowError"
proof -
  have a: "find_sequence_rate huge_doc = Some rate_huge" by code_simp
  have b: "findtext ''timebase'' rate_huge = Some huge_timebase" by code_simp
  have c: "py_int huge_timebase = Some (10 ^ 309)" by code_simp
  have d: "lower (or_empty (findtext ''ntsc'' rate_huge)) = ''false''" by code_simp
  have e: "float_of_int (10 ^ 309) = Inl OverflowError"
    by (rule float_of_int_overflow) simp
  have f: "get_sequence_rate huge_doc = Inl OverflowError"
    using e by (simp add: get_sequence_rate_def timebase_of_def a b c d)
  have g: "find_sequence_rate odd_doc = Some rate_odd" by code_simp
  have h: "py_int ''9007199254740993'' = Some 9007199254740993" by code_simp
  have i: "get_sequence_rate odd_doc = Inr 9007199254740992" by code_simp
  from a b c d f g h i show ?thesis by blast
qed

subsection \<open>The enabled flag\<close>



subsection \<open>The display name\<close>

text \<open>
  Claim C4 at a clip item named \<open>Clip A\<close> whose file reference has no name: the clip
  survives with the empty display name, not with the clip item's own name.
\<close>

theorem display_name_no_fallback:
  "findtext ''name'' unnamed_file_item = Some ''Clip A'' \<and>
   map name (gather_v1_clips id (track_doc [unnamed_file_item])) = ['''']"
  by code_simp

subsection \<open>The timecode\<close>

text \<open>
  Claim C5 at frame 989 of a 29.97 fps sequence: the fraction of a second rounds to 1000
  milliseconds, and the millisecond field has four digits.
\<close>

theorem millisecond_field_overflow:
  "get_sequence_rate (track_doc []) = Inr (2997 / 100) \<and>
   frames_to_tc_ms 989 (2997 / 100) = Inr ''00:00:32,1000''"
  by code_simp

subsection \<open>Leftmost search\<close>

lemma match_here_length: "match_here pat s \<Longrightarrow> length pat \<le> length s"
  by (induction pat s rule: match_here.induct) auto

lemma match_here_take: "match_here pat s \<Longrightarrow> match_here pat (take (length pat) s)"
  by (induction pat s rule: match_here.induct) auto

lemma re_search_length: "re_search pat s = Some m \<Longrightarrow> length m = length pat"
proof (induction s)
  case Nil
  then show ?case
    using match_here_length [of pat "[]"] by (auto split: if_splits)
next
  case (Cons x xs)
  then show ?case
    using match_here_length [of pat "x # xs"] by (auto split: if_splits)
qed

lemma re_search_leftmost:
  "re_search pat s = Some m \<Longrightarrow>
     \<exists>i \<le> length s. m = take (length pat) (drop i s) \<and> match_here pat (drop i s) \<and>
       (\<forall>j < i. \<not> match_here pat (drop j s))"
proof (induction s)
  case Nil
  then show ?case by (auto split: if_splits)
next
  case (Cons x xs)
  show ?case
  proof (cases "match_here pat (x # xs)")
    case True
    with Cons.prems have "m = take (length pat) (drop 0 (x # xs))" by simp
    with True show ?thesis by (intro exI [of _ 0]) simp
  next
    case False
    with Cons.prems have "re_search pat xs = Some m" by simp
    from Cons.IH [OF this] obtain i where i: "i \<le> length xs"
      "m = take (length pat) (drop i xs)" "match_here pat (drop i xs)"
      "\<forall>j < i. \<not> match_here pat (drop j xs)" by blast
    have "\<forall>j < Suc i. \<not> match_here pat (drop j (x # xs))"
    proof (intro allI impI)
      fix j assume "j < Suc i"
      then show "\<not> match_here pat (drop j (x # xs))"
        using False i(4) by (cases j) auto
    qed
    with i show ?thesis by (intro exI [of _ "Suc i"]) simp
  qed
qed

lemma re_search_none:
  "re_search pat s = None \<Longrightarrow> j \<le> length s \<Longrightarrow> \<not> match_here pat (drop j s)"
proof (induction s arbitrary: j)
  case Nil
  then show ?case by (auto split: if_splits)
next
  case (Cons x xs)
  then show ?case by (cases j) (auto split: if_splits)
qed

subsection \<open>The metadata priority chain\<close>

text \<open>
  Claim C3, as the code has it. The resolver returns the output (decoded and stripped; a
  failed call reads as empty) of the first tag, in priority order, whose output is
  non-empty, does not end in a colon and does not start with \<open>0000\<close>; when no tag has
  such an output it returns what the filename fallback gives.
\<close>

theorem metadata_priority_chain:
  "run_exiftool query p =
     (case List.find (\<lambda>out. out \<noteq> [] \<and> \<not> endswith out '':'' \<and> \<not> startswith out ''0000'')
             (map (\<lambda>t. case query t p of None \<Rightarrow> [] | Some b \<Rightarrow> strip b) tags) of
        Some out \<Rightarrow> Some out
      | None \<Rightarrow> filename_fallback (last_component p))"
proof -
  have "scan_tags query p ts =
          List.find (\<lambda>out. out \<noteq> [] \<and> \<not> endswith out '':'' \<and> \<not> startswith out ''0000'')
            (map (\<lambda>t. case query t p of None \<Rightarrow> [] | Some b \<Rightarrow> strip b) ts)" for ts
    by (induction ts) (auto simp: Let_def startswith_def)
  then show ?thesis by (simp add: run_exiftool_def)
qed

text \<open>
  C3 as stated fails: a date in year zero is non-empty, is not the all-zero date and does
  not end in \<open>0000:\<close>, yet the resolver passes over it and returns the value of a
  later tag.
\<close>

theorem degenerate_set_counterexample:
  "year_zero_query ''QuickTime:CreateDate'' ''/clips/a.mov'' = Some ''0000-01-01 00:00:00+0000'' \<and>
   ''0000-01-01 00:00:00+0000'' \<noteq> [] \<and>
   ''0000-01-01 00:00:00+0000'' \<noteq> ''0000-00-00 00:00:00'' \<and>
   \<not> endswith ''0000-01-01 00:00:00+0000'' ''0000:'' \<and>
   run_exiftool year_zero_query ''/clips/a.mov'' = Some ''2024-05-01 08:00:00+0000''"
  by code_simp

subsection \<open>The filename fallback\<close>

text \<open>
  Claim C7. When no metadata tag is accepted, the base name is searched for pattern A
  first. If A matches, the result is built from A's window alone, whatever pattern B
  would match; only when A does not match is pattern B searched. In both cases the
  result is \<open>YYYY-MM-DD HH:MM:00+0000\<close>: 24 characters, the matched minutes kept, the
  matched seconds replaced by \<open>00\<close>, for pattern B with month, day and year reordered.
  When neither matches there is no result.
\<close>

theorem filename_fallback_precedence:
  assumes "scan_tags query p tags = None"
  shows "(\<forall>m. re_search pattern_a (last_component p) = Some m \<longrightarrow>
            (\<exists>r. run_exiftool query p = Some r \<and> length r = 24 \<and>
               r = slice 0 4 m @ ''-'' @ slice 5 7 m @ ''-'' @ slice 8 10 m @ '' '' @
                   slice 11 13 m @ '':'' @ slice 14 16 m @ '':00+0000'' \<and>
               slice 14 16 r = slice 14 16 m \<and> drop 16 r = '':00+0000'')) \<and>
         (re_search pattern_a (last_component p) = None \<longrightarrow>
            (\<forall>m. re_search pattern_b (last_component p) = Some m \<longrightarrow>
               (\<exists>r. run_exiftool query p = Some r \<and> length r = 24 \<and>
                  r = slice 6 10 m @ ''-'' @ slice 0 2 m @ ''-'' @ slice 3 5 m @ '' '' @
                      slice 11 13 m @ '':'' @ slice 14 16 m @ '':00+0000'' \<and>
                  slice 14 16 r = slice 14 16 m \<and> drop 16 r = '':00+0000'')) \<and>
            (re_search pattern_b (last_component p) = None \<longrightarrow>
               run_exiftool query p = None))"
proof -
  have la: "length m = 19" if "re_search pattern_a s = Some m" for s m
    using re_search_length [OF that] by (simp add: pattern_a_def)
  have lb: "length m = 19" if "re_search pattern_b s = Some m" for s m
    using re_search_length [OF that] by (simp add: pattern_b_def)
  show ?thesis
    using assms
    by (auto simp: run_exiftool_def filename_fallback_def slice_def dest!: la lb)
qed

text \<open>
  C7 on a base name that matches both patterns, pattern B earlier in the name than
  pattern A: the extraction of pattern A is returned.
\<close>

theorem filename_fallback_precedence_witness:
  "scan_tags no_metadata ''/clips/01-02-2025_03-04-05 2026_07_08_09.10.11'' tags = None \<and>
   re_search pattern_b (last_component ''/clips/01-02-2025_03-04-05 2026_07_08_09.10.11'')
     = Some ''01-02-2025_03-04-05'' \<and>
   re_search pattern_a (last_component ''/clips/01-02-2025_03-04-05 2026_07_08_09.10.11'')
     = Some ''2026_07_08_09.10.11'' \<and>
   run_exiftool no_metadata ''/clips/01-02-2025_03-04-05 2026_07_08_09.10.11''
     = Some ''2026-07-08 09:10:00+0000''"
proof -
  let ?p = "''/clips/01-02-2025_03-04-05 2026_07_08_09.10.11''"
  have a: "scan_tags no_metadata ?p tags = None" by code_simp
  have b: "re_search pattern_b (last_component ?p) = Some ''01-02-2025_03-04-05''"
    by code_simp
  have c: "re_search pattern_a (last_component ?p) = Some ''2026_07_08_09.10.11''"
    by code_simp
  from filename_fallback_precedence [OF a] c
  have "\<exists>r. run_exiftool no_metadata ?p = Some r \<and>
          r = slice 0 4 ''2026_07_08_09.10.11'' @ ''-'' @ slice 5 7 ''2026_07_08_09.10.11'' @
              ''-'' @ slice 8 10 ''2026_07_08_09.10.11'' @ '' '' @
              slice 11 13 ''2026_07_08_09.10.11'' @ '':'' @
              slice 14 16 ''2026_07_08_09.10.11'' @ '':00+0000''"
    by blast
  then have "run_exiftool no_metadata ?p = Some ''2026-07-08 09:10:00+0000''"
    by (simp add: slice_def)
  with a b c show ?thesis by blast
qed

subsection \<open>The example run\<close>

lemma example_clips: "gather_v1_clips id two_clips = [clip_a, clip_b]"
  by code_simp

lemma example_rate: "get_sequence_rate two_clips = Inr (2997 / 100)"
  by code_simp

lemma example_tc_0: "frames_to_tc_ms 0 (2997 / 100) = Inr ''00:00:00,000''"
  by code_simp

lemma example_tc_100: "frames_to_tc_ms 100 (2997 / 100) = Inr ''00:00:03,337''"
  by code_simp





lemmas calendar_defs =
  astimezone_def to_micros_def of_micros_def ymd2ord_def ord2ymd_def days_before_year_def
  days_before_month_def DAYS_BEFORE_MONTH_def DAYS_IN_MONTH_def is_leap_def MAXORDINAL_def
  Let_def

lemmas strftime_defs = strftime_def zero_pad_def digits_of.simps digit_char_def











lemma example_fs_simps:
  "files example_fs ''/proj/seq.xml'' = Some ''<xmeml/>''"
  "files example_fs ''/proj/bad.xml'' = Some ''<xmeml''"
  "files example_fs ''/proj/timestamps_seq.srt'' = Some ''old''"
  "writable example_fs p"
  "written example_fs = []"
  by (simp_all add: example_fs_def)


subsection \<open>The normalizer\<close>

text \<open>
  The example of claim C8: with the local zone at UTC, \<open>2025-01-15 10:30:45+0000\<close>
  becomes \<open>2025-01-15 10:30\<close>.
\<close>

lemma normalizer_example_parse:
  "first_parse fmts ''2025-01-15 10:30:45+0000''
     = Some \<lparr>year = 2025, month = 1, day = 15, hour = 10, minute = 30, second = 45,
             tzinfo = Some 0\<rparr>"
  by code_simp

lemma normalizer_example_astimezone:
  "astimezone \<lparr>year = 2025, month = 1, day = 15, hour = 10, minute = 30, second = 45,
               tzinfo = Some 0\<rparr> 0
     = Inr \<lparr>year = 2025, month = 1, day = 15, hour = 10, minute = 30, second = 45,
             tzinfo = Some 0\<rparr>"
  by (simp add: calendar_defs)

lemma normalizer_example:
  "to_local_no_seconds 4 0 ''2025-01-15 10:30:45+0000'' = Inr (Some ''2025-01-15 10:30'')"
  using normalizer_example_astimezone
  by (simp add: to_local_no_seconds_def normalizer_example_parse strftime_defs)

lemma early_parse:
  "first_parse fmts ''0001-01-01 00:00:00+0100''
     = Some \<lparr>year = 1, month = 1, day = 1, hour = 0, minute = 0, second = 0,
             tzinfo = Some 3600000000\<rparr>"
  by code_simp

lemma early_astimezone:
  "astimezone \<lparr>year = 1, month = 1, day = 1, hour = 0, minute = 0, second = 0,
               tzinfo = Some 3600000000\<rparr> 0 = Inl OverflowError"
  by (simp add: calendar_defs)

lemma early_normalized:
  "to_local_no_seconds w 0 ''0001-01-01 00:00:00+0100'' = Inl OverflowError"
  using early_astimezone
  by (simp add: to_local_no_seconds_def early_parse)

text \<open>
  C8. The normalizer does not return a string for every input of an accepted shape. The
  string \<open>0001-01-01 00:00:00+0100\<close> has the first shape, seconds and a fixed-offset
  suffix, and is parsed by the first format. Its instant lies in the last hour before
  year 1, so with the local zone at UTC the conversion leaves the range of dates, and
  the normalizer raises \<open>OverflowError\<close> where the claim has it return a string.
\<close>

theorem normalizer_overflow:
  "first_parse fmts ''0001-01-01 00:00:00+0100''
     = Some \<lparr>year = 1, month = 1, day = 1, hour = 0, minute = 0, second = 0,
             tzinfo = Some 3600000000\<rparr> \<and>
   to_local_no_seconds 4 0 ''0001-01-01 00:00:00+0100'' = Inl OverflowError \<and>
   to_local_no_seconds 1 0 ''0001-01-01 00:00:00+0100'' = Inl OverflowError"
  by (simp add: early_parse early_normalized)

subsection \<open>Captions\<close>

lemma scan_tags_nonempty: "scan_tags q p ts = Some r \<Longrightarrow> r \<noteq> []"
  by (induction ts) (auto simp: Let_def split: if_splits)

lemma run_exiftool_nonempty: "run_exiftool q p = Some r \<Longrightarrow> r \<noteq> []"
  by (auto simp: run_exiftool_def filename_fallback_def dest: scan_tags_nonempty
           split: option.splits)

lemma strftime_nonempty: "strftime w dt \<noteq> []"
  by (simp add: strftime_def zero_pad_def)

lemma to_local_nonempty: "to_local_no_seconds w off s = Inr (Some l) \<Longrightarrow> l \<noteq> []"
  by (auto simp: to_local_no_seconds_def Let_def strftime_nonempty
           split: if_splits option.splits sum.splits)

text \<open>
  The fallback of the caption where nothing is raised: the marker and the display name
  when the resolver returns none, the raw string when it has none of the accepted
  shapes, the normalized string otherwise. What the normalizer raises, the caption
  raises.
\<close>

lemma caption_cases:
  "(run_exiftool (env_query env) (path c) = None \<longrightarrow>
      caption_of env c = Inr (''[NO-DATE] '' @ name c)) \<and>
   (\<forall>raw. run_exiftool (env_query env) (path c) = Some raw \<longrightarrow>
      (to_local_no_seconds (env_year_width env) (env_local_offset env) raw = Inr None \<longrightarrow>
         caption_of env c = Inr raw) \<and>
      (\<forall>l. to_local_no_seconds (env_year_width env) (env_local_offset env) raw = Inr (Some l)
         \<longrightarrow> caption_of env c = Inr l) \<and>
      (\<forall>e. to_local_no_seconds (env_year_width env) (env_local_offset env) raw = Inl e
         \<longrightarrow> caption_of env c = Inl e))"
proof (intro conjI allI impI)
  show "caption_of env c = Inr (''[NO-DATE] '' @ name c)"
    if "run_exiftool (env_query env) (path c) = None"
    using that by (simp add: caption_of_def)
next
  fix raw
  assume r: "run_exiftool (env_query env) (path c) = Some raw"
  then have ne: "raw \<noteq> []" by (rule run_exiftool_nonempty)
  show "caption_of env c = Inr raw"
    if "to_local_no_seconds (env_year_width env) (env_local_offset env) raw = Inr None"
    using that r ne by (simp add: caption_of_def)
  show "caption_of env c = Inr l"
    if "to_local_no_seconds (env_year_width env) (env_local_offset env) raw = Inr (Some l)"
    for l
    using that r ne to_local_nonempty [OF that] by (simp add: caption_of_def)
  show "caption_of env c = Inl e"
    if "to_local_no_seconds (env_year_width env) (env_local_offset env) raw = Inl e" for e
    using that r ne by (simp add: caption_of_def)
qed

text \<open>
  C9. A failure of the normalizer can abort the run. In the example run with a metadata
  capability that answers \<open>0001-01-01 00:00:00+0100\<close>, the resolver returns that string
  for the first clip, the normalizer raises \<open>OverflowError\<close> on it, the clip gets
  neither the raw string nor any other caption, and the run ends with that exception:
  no cue is written, and the files are as they were.
\<close>

theorem normalizer_error_aborts_run:
  "run_exiftool early_date ''/clips/a.mov'' = Some ''0001-01-01 00:00:00+0100'' \<and>
   caption_of ((example_env two_clips)\<lparr>env_query := early_date\<rparr>) clip_a
     = Inl OverflowError \<and>
   main ((example_env two_clips)\<lparr>env_query := early_date\<rparr>) [''prog'', ''/proj/seq.xml'']
     example_fs = (Raised OverflowError, example_fs)"
proof -
  let ?env = "(example_env two_clips)\<lparr>env_query := early_date\<rparr>"
  have r: "run_exiftool early_date ''/clips/a.mov'' = Some ''0001-01-01 00:00:00+0100''"
    by code_simp
  have c: "caption_of ?env clip_a = Inl OverflowError"
    by (simp add: caption_of_def example_env_def clip_a_def r early_normalized)
  have q: "cue_of ?env (2997 / 100) clip_a = Inl OverflowError"
    using c by (simp add: cue_of_def clip_a_def example_tc_0 example_tc_100)
  have p: "env_parse (example_env two_clips) ''<xmeml/>'' = Some two_clips"
    by (simp add: example_env_def)
  have u: "env_urlpath (example_env two_clips) = id"
    by (simp add: example_env_def)
  have "main ?env [''prog'', ''/proj/seq.xml''] example_fs = (Raised OverflowError, example_fs)"
    using q by (simp add: main_def Let_def p u example_fs_simps example_clips example_rate)
  with r c show ?thesis by simp
qed

subsection \<open>The written document\<close>








subsection \<open>Failures and the output file\<close>



end
